theory Spec2Isabelle
  imports Complex_Main "HOL-Library.Sublist" "HOL-Library.Multiset"
begin

section \<open>Python text\<close>

text \<open>
  A Python \<open>str\<close> is modelled as the \<open>string\<close> of its UTF-8 encoding: a character of the
  Python string is one UTF-8 sequence, a byte that is not a continuation byte followed by
  its continuation bytes. \<open>chars\<close> cuts a string into its characters and \<open>codepoint\<close>
  gives the code point of a character. A \<open>string\<close> that is the encoding of no Python
  string stands for no value of the program. The characters of the source's literals that lie
  outside ASCII (the emoji of the headings, the dash, the accented letter of the
  conversation template) are written as their bytes. \<open>str.lower()\<close> and
  \<open>str.capitalize()\<close> are driven by the Unicode tables and are parameters of the model
  (see \<open>env\<close> below).
\<close>

definition is_cont :: "char \<Rightarrow> bool" where
  "is_cont c = (let n = (of_char c :: int) in 128 \<le> n \<and> n < 192)"

function chars :: "string \<Rightarrow> string list" where
  "chars [] = []"
| "chars (c # cs) = (c # takeWhile is_cont cs) # chars (dropWhile is_cont cs)"
  by pat_completeness auto
termination
  by (relation "measure length") (auto simp: length_dropWhile_le less_Suc_eq_le)

definition codepoint :: "string \<Rightarrow> int" where
  "codepoint ch =
     (case ch of
        [] \<Rightarrow> 0
      | c # cs \<Rightarrow>
          foldl (\<lambda>a b. a * 64 + (of_char b - 128))
            (let n = of_char c
             in if n < 128 then n else if n < 224 then n - 192
                else if n < 240 then n - 224 else n - 240)
            cs)"

text \<open>
  The characters \<open>str.isspace\<close> holds for, which are the ones \<open>str.strip()\<close> removes and
  the ones \<open>\s\<close> matches in a regular expression on strings.
\<close>

definition isspace :: "string \<Rightarrow> bool" where
  "isspace ch =
     (let n = codepoint ch
      in (9 \<le> n \<and> n \<le> 13) \<or> (28 \<le> n \<and> n \<le> 32) \<or> n = 133 \<or> n = 160 \<or> n = 5760
         \<or> (8192 \<le> n \<and> n \<le> 8202) \<or> n = 8232 \<or> n = 8233 \<or> n = 8239 \<or> n = 8287
         \<or> n = 12288)"

definition strip :: "string \<Rightarrow> string" where
  "strip s = concat (rev (dropWhile isspace (rev (dropWhile isspace (chars s)))))"

text \<open>\<open>s[:n]\<close> for \<open>n \<ge> 0\<close>: the first \<open>n\<close> characters.\<close>

definition take_chars :: "nat \<Rightarrow> string \<Rightarrow> string" where
  "take_chars n s = concat (take n (chars s))"

definition startswith :: "string \<Rightarrow> string \<Rightarrow> bool" where
  "startswith s p = prefix p s"

definition endswith :: "string \<Rightarrow> string \<Rightarrow> bool" where
  "endswith s p = suffix p s"

text \<open>\<open>sep.join(xs)\<close>\<close>

fun join :: "string \<Rightarrow> string list \<Rightarrow> string" where
  "join sep [] = []"
| "join sep [x] = x"
| "join sep (x # y # ys) = x @ sep @ join sep (y # ys)"

text \<open>\<open>str(n)\<close> of an integer: its decimal digits, with a sign when negative.\<close>

definition digit :: "nat \<Rightarrow> char" where
  "digit d = char_of (48 + d)"

fun str_nat :: "nat \<Rightarrow> string" where
  "str_nat n = (if n < 10 then [digit n] else str_nat (n div 10) @ [digit (n mod 10)])"

declare str_nat.simps [simp del]

definition str_int :: "int \<Rightarrow> string" where
  "str_int i = (if i < 0 then CHR ''-'' # str_nat (nat (- i)) else str_nat (nat i))"

section \<open>Data model\<close>

record FeatureProposal =
  id' :: int
  description :: string

record Persona =
  name :: string
  background :: string
  quote :: string
  sentiment :: string
  pain_points :: "string list"
  inspired_by_cluster_id :: "string option"

datatype BaseMessage = HumanMessage string | AIMessage string | SystemMessage string

text \<open>
  Exceptions. The handlers of the pipeline never tell the classes apart (every one of them
  ends in \<open>except Exception\<close>); what they use is the text \<open>str(e)\<close>, which for the
  exceptions the interpreter raises is given by \<open>str_exn\<close> of the environment.
\<close>

datatype exn = TypeError | AttributeError | KeyError | IndexError | ValueError
  | JSONDecodeError | ServiceError string

text \<open>
  The values \<open>json.load\<close> and \<open>json.loads\<close> produce. A dictionary is the list of its
  items in insertion order, its keys distinct. A float is carried as the number it
  denotes; how numbers print is left to the environment.
\<close>

datatype pyval = PNone | PBool bool | PInt int | PFloat real | PStr string
  | PList "pyval list" | PDict "(string \<times> pyval) list"

type_synonym pydict = "(string \<times> pyval) list"

section \<open>The services outside the program\<close>

text \<open>
  What the program does not compute itself is a field of the environment:
  \<^item> \<open>llm_invoke E k prompt\<close>: the answer of the completion service to the \<open>k\<close>-th request
    of the run (\<open>k\<close> requests were made before it), or the exception it raises;
  \<^item> \<open>rng E r i\<close>: the number the random generator delivers in round \<open>r\<close> when
    \<open>random.shuffle\<close> asks for an index below \<open>i + 1\<close>;
  \<^item> \<open>lower E\<close> and \<open>capitalize E\<close>: \<open>str.lower()\<close> and \<open>str.capitalize()\<close>;
  \<^item> \<open>str_exn E\<close>: \<open>str(e)\<close> of an exception;
  \<^item> \<open>repr_of E\<close>: the text of a float, a list or a dictionary in an f-string;
  \<^item> \<open>format_2f E\<close>: a number under the format \<open>.2f\<close>;
  \<^item> \<open>json_loads E\<close>: \<open>json.loads\<close>, the value parsed or the exception raised;
  \<^item> \<open>dict_slice_exn E\<close>: the exception \<open>d[:n]\<close> raises on a dictionary, \<open>TypeError\<close>
    (unhashable slice) up to Python 3.11 and \<open>KeyError\<close> from Python 3.12;
  \<^item> \<open>now E\<close>: the time stamp \<open>datetime.now(timezone.utc).strftime(...)\<close> of the report;
  \<^item> \<open>report_opens E\<close>: whether the report file can be opened for writing.
  The requests made so far are the log \<open>llm_calls\<close>, the list of the prompts sent, oldest
  first: a function that calls the service returns the log extended.
\<close>

record env =
  llm_invoke :: "nat \<Rightarrow> string \<Rightarrow> exn + string"
  rng :: "int \<Rightarrow> nat \<Rightarrow> nat"
  lower :: "string \<Rightarrow> string"
  capitalize :: "string \<Rightarrow> string"
  str_exn :: "exn \<Rightarrow> string"
  repr_of :: "pyval \<Rightarrow> string"
  format_2f :: "real \<Rightarrow> string"
  json_loads :: "string \<Rightarrow> exn + pyval"
  dict_slice_exn :: exn
  now :: string
  report_opens :: bool

type_synonym calls = "string list"

text \<open>One request to the model: \<open>llm_client.invoke(messages)\<close>, logged.\<close>

definition invoke :: "env \<Rightarrow> calls \<Rightarrow> string \<Rightarrow> (exn + string) \<times> calls" where
  "invoke E lg prompt = (llm_invoke E (length lg) prompt, lg @ [prompt])"

text \<open>
  \<open>random.shuffle(x)\<close>: for \<open>i\<close> from \<open>len(x) - 1\<close> down to \<open>1\<close>, exchange \<open>x[i]\<close> with
  \<open>x[j]\<close> for a random \<open>j \<le> i\<close>.
\<close>

fun shuffle_from :: "(nat \<Rightarrow> nat) \<Rightarrow> nat \<Rightarrow> 'a list \<Rightarrow> 'a list" where
  "shuffle_from rnd 0 xs = xs"
| "shuffle_from rnd (Suc i) xs =
     (let j = rnd (Suc i) mod Suc (Suc i)
      in shuffle_from rnd i (xs[Suc i := xs ! j, j := xs ! Suc i]))"

definition shuffle :: "(nat \<Rightarrow> nat) \<Rightarrow> 'a list \<Rightarrow> 'a list" where
  "shuffle rnd xs = shuffle_from rnd (length xs - 1) xs"

section \<open>Board simulation\<close>

subsection \<open>The conversation chain of a persona\<close>

text \<open>
  Modelled from the spec: \<open>ConversationChain\<close> and \<open>ConversationBufferWindowMemory\<close>
  are classes of the langchain library, whose code is not part of the repository. A memory
  is the list of the exchanges saved in it, oldest first, an exchange being the input given
  to the chain and the text the model answered. \<open>predict\<close> reads the window of the last
  \<open>k = 5\<close> exchanges, fills the prompt template with it, with the input and with the
  persona details fixed by \<open>prompt.partial\<close>, sends the prompt to the model and, when the
  model answers, saves the exchange in the memory and returns the answer. When the model
  raises, so does \<open>predict\<close>, and nothing is saved.
\<close>

type_synonym memory = "(string \<times> string) list"

record ConversationChain =
  persona_name :: string
  persona_background :: string
  persona_sentiment :: string
  persona_pain_points :: string
  memory :: memory

definition window :: "memory \<Rightarrow> memory" where
  "window m = drop (length m - 5) m"

definition history :: "memory \<Rightarrow> string" where
  "history m = join ''\<newline>'' (concat (map (\<lambda>(i, out). [''Human: '' @ i, ''AI: '' @ out]) (window m)))"

definition convo_template :: "ConversationChain \<Rightarrow> string \<Rightarrow> string \<Rightarrow> string" where
  "convo_template c hist inp =
     ''\<newline>You are '' @ persona_name c
       @ ''. Act and respond authentically based on this profile:\<newline>''
     @ ''- Background: '' @ persona_background c @ ''\<newline>''
     @ ''- Overall Sentiment towards Spotify: '' @ persona_sentiment c @ ''\<newline>''
     @ ''- Key Pain Points/Frustrations: '' @ persona_pain_points c @ ''\<newline>''
     @ ''\<newline>''
     @ ''Always speak in the first person ('' @ [CHR 0x27] @ ''I'' @ [CHR 0x27] @ '', ''
       @ [CHR 0x27] @ ''me'' @ [CHR 0x27] @ '', '' @ [CHR 0x27] @ ''my'' @ [CHR 0x27]
       @ ''). Keep your responses concise (1-3 sentences unless asked otherwise) and focused ''
       @ ''on the discussion topic. Ground your opinions in your background and pain points. ''
       @ ''Be honest and natural. Avoid clich'' @ [CHR 0xC3, CHR 0xA9] @ ''s like ''
       @ [CHR 0x27] @ ''Honestly'' @ [CHR 0x27] @ '' or '' @ [CHR 0x27]
       @ ''Thanks for bringing this up'' @ [CHR 0x27] @ ''.\<newline>''
     @ ''\<newline>''
     @ ''Current Conversation:\<newline>''
     @ hist @ ''\<newline>''
     @ ''Human: '' @ inp @ ''\<newline>''
     @ persona_name c @ '':''"

definition predict ::
  "env \<Rightarrow> ConversationChain \<Rightarrow> string \<Rightarrow> calls \<Rightarrow> (exn + string) \<times> ConversationChain \<times> calls" where
  "predict E c inp lg =
     (case invoke E lg (convo_template c (history (memory c)) inp) of
        (Inl e, lg') \<Rightarrow> (Inl e, c, lg')
      | (Inr out, lg') \<Rightarrow> (Inr out, c\<lparr>memory := memory c @ [(inp, out)]\<rparr>, lg'))"

subsection \<open>The state of a simulation\<close>

text \<open>
  The local variables of \<open>simulate_board\<close> that change while it runs, and the log of the
  requests. \<open>chains\<close> is the dictionary from persona names to chains; the dictionary
  \<open>memories\<close> of the source holds, under the same keys, the memory objects the chains were
  built with, and is never read. \<open>priority_votes\<close> is a \<open>defaultdict(int)\<close>: a key that
  is absent reads as \<open>0\<close> and is created by \<open>+= 1\<close>.
\<close>

record board =
  chains :: "string \<rightharpoonup> ConversationChain"
  transcript :: "string list"
  global_history :: "BaseMessage list"
  priority_votes :: "string \<rightharpoonup> int"
  llm_calls :: calls

definition new_chain :: "Persona \<Rightarrow> ConversationChain" where
  "new_chain p = \<lparr>persona_name = name p, persona_background = background p,
     persona_sentiment = sentiment p, persona_pain_points = join ''; '' (pain_points p),
     memory = []\<rparr>"

text \<open>\<open>for p in personas: ... chains[p.name] = chain\<close>\<close>

fun init_chains :: "Persona list \<Rightarrow> (string \<rightharpoonup> ConversationChain) \<Rightarrow> (string \<rightharpoonup> ConversationChain)" where
  "init_chains [] ch = ch"
| "init_chains (p # ps) ch = init_chains ps (ch(name p \<mapsto> new_chain p))"

subsection \<open>Facilitator prompt\<close>

text \<open>\<open>"\n".join(f"{i+1}. {f.description}" for i, f in enumerate(features))\<close>\<close>

definition feature_list_md :: "FeatureProposal list \<Rightarrow> string" where
  "feature_list_md features =
     join ''\<newline>'' (map (\<lambda>(i, f). str_int (int i + 1) @ ''. '' @ description f)
       (enumerate 0 features))"

definition fac_welcome :: "FeatureProposal list \<Rightarrow> string" where
  "fac_welcome features =
     ''Welcome, everyone. We have **'' @ str_int (int (length features))
       @ ''** candidate features:\<newline>''
     @ feature_list_md features @ ''\<newline>\<newline>''
     @ [CHR 0xF0, CHR 0x9F, CHR 0x91, CHR 0x89]
     @ '' In a SHORT paragraph: what excites or worries you most?''"

definition fac_deeper :: string where
  "fac_deeper =
     ''Thanks! Now dig deeper: for EACH feature name either one concrete risk ''
     @ ''or one success metric. Any initial thoughts on potential impacts?''"

definition fac_prioritise :: string where
  "fac_prioritise =
     ''Time to prioritise. Pick ONE feature Spotify should ship next quarter & why ''
     @ ''. Mention one trade-off you'' @ [CHR 0x27] @ ''d accept.''"

text \<open>The \<open>if r == 1 ... elif r == 2 ... else\<close> of the round loop.\<close>

definition fac_input :: "FeatureProposal list \<Rightarrow> int \<Rightarrow> string" where
  "fac_input features r =
     (if r = 1 then fac_welcome features
      else if r = 2 then fac_deeper
      else fac_prioritise)"

definition facilitator_heading :: "int \<Rightarrow> string" where
  "facilitator_heading r =
     ''\<newline>### '' @ [CHR 0xF0, CHR 0x9F, CHR 0x8E, CHR 0xA4] @ '' Facilitator ''
     @ [CHR 0xE2, CHR 0x80, CHR 0x93] @ '' Round '' @ str_int r"

definition persona_heading :: "Persona \<Rightarrow> string" where
  "persona_heading p = ''\<newline>#### '' @ [CHR 0xF0, CHR 0x9F, CHR 0x91, CHR 0xA4] @ '' '' @ name p"

definition error_reply :: string where
  "error_reply = ''(Persona encountered an error and could not generate response)''"

subsection \<open>Vote tally\<close>

text \<open>
  \<open>for f in features: if f.description.lower() in reply.lower(): priority_votes[...] += 1; break\<close>
\<close>

definition mentions :: "env \<Rightarrow> FeatureProposal \<Rightarrow> string \<Rightarrow> bool" where
  "mentions E f reply = sublist (lower E (description f)) (lower E reply)"

definition votes_of :: "(string \<rightharpoonup> int) \<Rightarrow> string \<Rightarrow> int" where
  "votes_of v k = (case v k of None \<Rightarrow> 0 | Some c \<Rightarrow> c)"

fun tally :: "env \<Rightarrow> FeatureProposal list \<Rightarrow> string \<Rightarrow> (string \<rightharpoonup> int) \<Rightarrow> (string \<rightharpoonup> int)" where
  "tally E [] reply v = v"
| "tally E (f # fs) reply v =
     (if mentions E f reply then v(description f \<mapsto> votes_of v (description f) + 1)
      else tally E fs reply v)"

subsection \<open>Turns and rounds\<close>

text \<open>
  The body of \<open>for p in order\<close>. The lookup \<open>chains[p.name]\<close> stands outside the
  \<open>try\<close>: a missing key would end the simulation with \<open>KeyError\<close>, and the state reached
  is returned with it.
\<close>

definition persona_turn ::
  "env \<Rightarrow> FeatureProposal list \<Rightarrow> int \<Rightarrow> int \<Rightarrow> board \<Rightarrow> Persona \<Rightarrow> (exn \<times> board) + board" where
  "persona_turn E features rounds r s p =
     (case chains s (name p) of
        None \<Rightarrow> Inl (KeyError, s)
      | Some chain \<Rightarrow>
          (case predict E chain (fac_input features r) (llm_calls s) of
             (res, chain', lg') \<Rightarrow>
               let reply = (case res of Inr out \<Rightarrow> strip out | Inl e \<Rightarrow> error_reply);
                   s1 = s\<lparr>chains := (chains s)(name p \<mapsto> chain'),
                          llm_calls := lg',
                          transcript := transcript s @ [persona_heading p, reply],
                          global_history := global_history s @ [AIMessage reply]\<rparr>
               in Inr (if r = rounds
                       then s1\<lparr>priority_votes := tally E features reply (priority_votes s1)\<rparr>
                       else s1)))"

fun run_turns ::
  "env \<Rightarrow> FeatureProposal list \<Rightarrow> int \<Rightarrow> int \<Rightarrow> board \<Rightarrow> Persona list \<Rightarrow> (exn \<times> board) + board" where
  "run_turns E features rounds r s [] = Inr s"
| "run_turns E features rounds r s (p # ps) =
     (case persona_turn E features rounds r s p of
        Inl e \<Rightarrow> Inl e
      | Inr s' \<Rightarrow> run_turns E features rounds r s' ps)"

text \<open>The body of \<open>for r in range(1, rounds + 1)\<close>.\<close>

definition run_round ::
  "env \<Rightarrow> Persona list \<Rightarrow> FeatureProposal list \<Rightarrow> int \<Rightarrow> int \<Rightarrow> board \<Rightarrow> (exn \<times> board) + board" where
  "run_round E personas features rounds r s =
     (let s1 = s\<lparr>transcript := transcript s @ [facilitator_heading r, fac_input features r],
                 global_history := global_history s @ [HumanMessage (fac_input features r)]\<rparr>;
          order = shuffle (rng E r) personas
      in run_turns E features rounds r s1 order)"

fun run_rounds ::
  "env \<Rightarrow> Persona list \<Rightarrow> FeatureProposal list \<Rightarrow> int \<Rightarrow> board \<Rightarrow> int list \<Rightarrow> (exn \<times> board) + board" where
  "run_rounds E personas features rounds s [] = Inr s"
| "run_rounds E personas features rounds s (r # rs) =
     (case run_round E personas features rounds r s of
        Inl e \<Rightarrow> Inl e
      | Inr s' \<Rightarrow> run_rounds E personas features rounds s' rs)"

definition init_board :: "Persona list \<Rightarrow> calls \<Rightarrow> board" where
  "init_board personas lg =
     \<lparr>chains = init_chains personas Map.empty, transcript = [], global_history = [],
      priority_votes = Map.empty, llm_calls = lg\<rparr>"

text \<open>
  The simulation from the initialisation of the chains to the end of the last round,
  with all its local state.
\<close>

definition board_loop ::
  "env \<Rightarrow> calls \<Rightarrow> Persona list \<Rightarrow> FeatureProposal list \<Rightarrow> int \<Rightarrow> (exn \<times> board) + board" where
  "board_loop E lg personas features rounds =
     run_rounds E personas features rounds (init_board personas lg) [1..rounds]"

text \<open>
  \<open>simulate_board\<close>: the transcript and the global history, or the exception raised, and
  the log of the requests on return.
\<close>

definition simulate_board ::
  "env \<Rightarrow> calls \<Rightarrow> Persona list \<Rightarrow> FeatureProposal list \<Rightarrow> int
     \<Rightarrow> (exn + string \<times> BaseMessage list) \<times> calls" where
  "simulate_board E lg personas features rounds =
     (if personas = [] \<or> features = [] then (Inr ('''', []), lg)
      else case board_loop E lg personas features rounds of
             Inl (e, s) \<Rightarrow> (Inl e, llm_calls s)
           | Inr s \<Rightarrow> (Inr (join ''\<newline>'' (transcript s), global_history s), llm_calls s))"

section \<open>Completion with retry\<close>

text \<open>
  \<open>invoke_llm_with_retry\<close> is decorated with \<open>retry(stop=stop_after_attempt(3),
  wait=wait_fixed(2), reraise=True)\<close>: an attempt that raises is repeated, and the
  exception of the third attempt is raised to the caller. An attempt returns
  \<open>response.content.strip()\<close>.
\<close>

definition attempt :: "env \<Rightarrow> calls \<Rightarrow> string \<Rightarrow> (exn + string) \<times> calls" where
  "attempt E lg prompt =
     (case invoke E lg prompt of
        (Inl e, lg') \<Rightarrow> (Inl e, lg')
      | (Inr content, lg') \<Rightarrow> (Inr (strip content), lg'))"

definition invoke_llm_with_retry :: "env \<Rightarrow> calls \<Rightarrow> string \<Rightarrow> (exn + string) \<times> calls" where
  "invoke_llm_with_retry E lg prompt =
     (case attempt E lg prompt of
        (Inr reply, lg1) \<Rightarrow> (Inr reply, lg1)
      | (Inl e1, lg1) \<Rightarrow>
          (case attempt E lg1 prompt of
             (Inr reply, lg2) \<Rightarrow> (Inr reply, lg2)
           | (Inl e2, lg2) \<Rightarrow> attempt E lg2 prompt))"

definition ask_llm :: "env \<Rightarrow> calls \<Rightarrow> string \<Rightarrow> (exn + string) \<times> calls" where
  "ask_llm E lg prompt = invoke_llm_with_retry E lg prompt"

section \<open>Operations on Python values\<close>

definition sq :: string where
  "sq = [CHR 0x27]"

definition dq :: string where
  "dq = [CHR 0x22]"

definition backslash :: string where
  "backslash = [CHR 0x5C]"

text \<open>\<open>xs[:n]\<close>: a negative bound counts from the end.\<close>

definition slice_to :: "int \<Rightarrow> 'a list \<Rightarrow> 'a list" where
  "slice_to n xs = (if 0 \<le> n then take (nat n) xs else take (length xs - nat (- n)) xs)"


text \<open>The truth value of an object in a condition.\<close>

fun truthy :: "pyval \<Rightarrow> bool" where
  "truthy PNone = False"
| "truthy (PBool b) = b"
| "truthy (PInt i) = (i \<noteq> 0)"
| "truthy (PFloat x) = (x \<noteq> 0)"
| "truthy (PStr s) = (s \<noteq> [])"
| "truthy (PList vs) = (vs \<noteq> [])"
| "truthy (PDict d) = (d \<noteq> [])"

text \<open>\<open>d.get(k, default)\<close> and \<open>k in d\<close>\<close>

definition dict_get :: "pydict \<Rightarrow> string \<Rightarrow> pyval \<Rightarrow> pyval" where
  "dict_get d k dflt = (case map_of d k of None \<Rightarrow> dflt | Some v \<Rightarrow> v)"

definition has_key :: "pydict \<Rightarrow> string \<Rightarrow> bool" where
  "has_key d k = (map_of d k \<noteq> None)"

fun is_str :: "pyval \<Rightarrow> bool" where
  "is_str (PStr s) = True"
| "is_str v = False"

fun str_val :: "pyval \<Rightarrow> string" where
  "str_val (PStr s) = s"
| "str_val v = []"

text \<open>
  \<open>sep.join(v)\<close>: \<open>v\<close> has to be iterable (a list, a string, which yields its characters,
  or a dictionary, which yields its keys) and yield strings only, else \<open>TypeError\<close>.
\<close>

fun join_val :: "string \<Rightarrow> pyval \<Rightarrow> exn + string" where
  "join_val sep (PList vs) =
     (if list_all is_str vs then Inr (join sep (map str_val vs)) else Inl TypeError)"
| "join_val sep (PStr s) = Inr (join sep (chars s))"
| "join_val sep (PDict d) = Inr (join sep (map fst d))"
| "join_val sep v = Inl TypeError"

text \<open>\<open>v[0]\<close>\<close>

fun first_item :: "pyval \<Rightarrow> exn + pyval" where
  "first_item (PList []) = Inl IndexError"
| "first_item (PList (v # vs)) = Inr v"
| "first_item (PStr s) = (case chars s of [] \<Rightarrow> Inl IndexError | c # cs \<Rightarrow> Inr (PStr c))"
| "first_item (PDict d) = Inl KeyError"
| "first_item v = Inl TypeError"

text \<open>
  \<open>v[:n]\<close> for \<open>n \<ge> 0\<close>: a string gives its first \<open>n\<close> characters and a list its first
  \<open>n\<close> items, a dictionary raises the exception of the Python version in use, and the
  other values are not subscriptable.
\<close>

fun slice_val :: "env \<Rightarrow> nat \<Rightarrow> pyval \<Rightarrow> exn + pyval" where
  "slice_val E n (PStr s) = Inr (PStr (take_chars n s))"
| "slice_val E n (PList vs) = Inr (PList (take n vs))"
| "slice_val E n (PDict d) = Inl (dict_slice_exn E)"
| "slice_val E n v = Inl TypeError"

text \<open>
  What iterating over a value yields: a list its items, a string its characters, a
  dictionary its keys; the other values are not iterable.
\<close>

fun items_of :: "pyval \<Rightarrow> exn + pyval list" where
  "items_of (PList vs) = Inr vs"
| "items_of (PStr s) = Inr (map PStr (chars s))"
| "items_of (PDict d) = Inr (map (\<lambda>(k, v). PStr k) d)"
| "items_of v = Inl TypeError"

text \<open>The text of a value in an f-string, \<open>str(v)\<close>.\<close>

definition py_str :: "env \<Rightarrow> pyval \<Rightarrow> string" where
  "py_str E v =
     (case v of
        PStr s \<Rightarrow> s
      | PInt i \<Rightarrow> str_int i
      | PNone \<Rightarrow> ''None''
      | PBool b \<Rightarrow> (if b then ''True'' else ''False'')
      | _ \<Rightarrow> repr_of E v)"

text \<open>\<open>f"{v:.2f}"\<close>: numbers only; a string raises \<open>ValueError\<close>, the rest \<open>TypeError\<close>.\<close>

definition fmt_2f :: "env \<Rightarrow> pyval \<Rightarrow> exn + string" where
  "fmt_2f E v =
     (case v of
        PInt i \<Rightarrow> Inr (format_2f E (of_int i))
      | PFloat x \<Rightarrow> Inr (format_2f E x)
      | PBool b \<Rightarrow> Inr (format_2f E (if b then 1 else 0))
      | PStr s \<Rightarrow> Inl ValueError
      | _ \<Rightarrow> Inl TypeError)"

text \<open>\<open>samples[0] if samples else 'N/A'\<close>\<close>

definition sample_feedback :: "pydict \<Rightarrow> exn + pyval" where
  "sample_feedback info =
     (let samples = dict_get info ''samples'' (PList [])
      in if truthy samples then first_item samples else Inr (PStr ''N/A''))"

section \<open>Feature ideation\<close>







section \<open>Persona generation\<close>

text \<open>\<open>', '.join(f'{k}: {v}' for k, v in sentiment_dist.items())\<close>\<close>

definition sentiment_items :: "env \<Rightarrow> pyval \<Rightarrow> exn + string" where
  "sentiment_items E v =
     (case v of
        PDict d \<Rightarrow> Inr (join '', '' (map (\<lambda>(k, c). k @ '': '' @ py_str E c) d))
      | _ \<Rightarrow> Inl AttributeError)"

text \<open>The body of \<open>for cluster_id, cluster_data in selected_clusters_for_prompt\<close> for a dictionary.\<close>

definition persona_detail :: "env \<Rightarrow> string \<Rightarrow> pydict \<Rightarrow> exn + string" where
  "persona_detail E cluster_id cluster_data =
     (case join_val '', '' (dict_get cluster_data ''keywords'' (PList [PStr ''N/A''])) of
        Inl e \<Rightarrow> Inl e
      | Inr keywords_str \<Rightarrow>
     (case sample_feedback cluster_data of
        Inl e \<Rightarrow> Inl e
      | Inr sample \<Rightarrow>
     (case sentiment_items E (dict_get cluster_data ''sentiment_dist'' (PDict [])) of
        Inl e \<Rightarrow> Inl e
      | Inr items \<Rightarrow>
     (case (if has_key cluster_data ''avg_sentiment''
            then map_sum id (\<lambda>t. '' | AvgSentiment='' @ t)
                   (fmt_2f E (dict_get cluster_data ''avg_sentiment'' PNone))
            else Inr []) of
        Inl e \<Rightarrow> Inl e
      | Inr avg \<Rightarrow>
     (case slice_val E 150 sample of
        Inl e \<Rightarrow> Inl e
      | Inr shown \<Rightarrow>
          Inr (''- Cluster '' @ cluster_id @ '': Keywords=['' @ keywords_str @ ''] | ''
               @ ''SentimentDist=['' @ items @ '']'' @ avg
               @ '' | Sample='' @ dq @ py_str E shown @ ''...'' @ dq))))))"

fun persona_details :: "env \<Rightarrow> pydict \<Rightarrow> exn + string list" where
  "persona_details E [] = Inr []"
| "persona_details E ((cluster_id, cluster_data) # rest) =
     (case cluster_data of
        PDict d \<Rightarrow>
          (case persona_detail E cluster_id d of
             Inl e \<Rightarrow> Inl e
           | Inr line \<Rightarrow>
               (case persona_details E rest of Inl e \<Rightarrow> Inl e | Inr ls \<Rightarrow> Inr (line # ls)))
      | _ \<Rightarrow> persona_details E rest)"

definition qt :: "string \<Rightarrow> string" where
  "qt s = dq @ s @ dq"

definition bq :: "string \<Rightarrow> string" where
  "bq s = ''`'' @ s @ ''`''"

definition json_format_example :: string where
  "json_format_example = join ''\<newline>''
     [[],
      ''    ```json'',
      ''    ['',
      ''      {'',
      ''        '' @ qt ''name'' @ '': '' @ qt ''Alex Chen'' @ '','',
      ''        '' @ qt ''background'' @ '': ''
        @ qt (''Deep, diverse description of the persona'' @ sq
              @ ''s background in 5-10 sentences'') @ '','',
      ''        '' @ qt ''quote'' @ '': ''
        @ qt ''Finding new music I actually like feels harder than it should be.'' @ '','',
      ''        '' @ qt ''sentiment'' @ '': '' @ qt ''neutral'' @ '','',
      ''        '' @ qt ''pain_points'' @ '': ['',
      ''          '' @ qt ''Music discovery algorithm often misses the mark'' @ '','',
      ''          '' @ qt ''Too many ads in the free tier interrupt listening flow'' @ '','',
      ''          '' @ qt ''Playlist organization options are limited'',
      ''        ],'',
      ''        '' @ qt ''inspired_by_cluster_id'' @ '': '' @ qt ''3'',
      ''      },'',
      ''      {'',
      ''        '' @ qt ''name'' @ '': '' @ qt ''Maria Garcia'' @ '','',
      ''        '' @ qt ''background'' @ '': ''
        @ qt (''Deep, diverse description of the persona'' @ sq
              @ ''s background in 5-10 sentences'') @ '','',
      ''        '' @ qt ''quote'' @ '': ''
        @ qt (''I just want to quickly find a good podcast for my drive or something safe ''
              @ ''for the kids.'') @ '','',
      ''        '' @ qt ''sentiment'' @ '': '' @ qt ''positive'' @ '','',
      ''        '' @ qt ''pain_points'' @ '': ['',
      ''          '' @ qt ''Difficult to manage separate profiles effectively on family plan'' @ '','',
      ''          '' @ qt ''Podcast discovery feels cluttered'' @ '','',
      ''          '' @ qt ''Lack of robust parental control features'',
      ''        ],'',
      ''        '' @ qt ''inspired_by_cluster_id'' @ '': '' @ qt ''1'',
      ''      }'',
      ''    ]'',
      ''    ```'',
      ''    '']"

definition persona_prompt :: "int \<Rightarrow> string \<Rightarrow> string" where
  "persona_prompt count' cluster_summary_str =
     ''You are an expert persona generator specializing in user experience research. ''
       @ ''Your task is to create exactly '' @ str_int count'
       @ '' distinct and deeply grounded Spotify user personas based on the provided user ''
       @ ''feedback cluster summaries.\<newline>\<newline>''
     @ ''**Requirements:**\<newline>''
     @ ''1.  **Generate '' @ str_int count'
       @ '' Personas:** Create exactly this number.\<newline>''
     @ ''2.  **Diversity:** Ensure personas have unique backgrounds, motivations, Spotify usage ''
       @ ''patterns, and personalities. Avoid stereotypes.\<newline>''
     @ ''3.  **Grounded in Data:** Each persona'' @ sq
       @ ''s details (background, quote, sentiment, pain points) MUST directly reflect themes ''
       @ ''from the provided cluster summaries. Assign '' @ bq ''inspired_by_cluster_id''
       @ '' to the cluster ID that most influenced the persona.\<newline>''
     @ ''4.  **Sentiment:** Use ONLY '' @ sq @ ''positive'' @ sq @ '', '' @ sq @ ''neutral'' @ sq
       @ '', or '' @ sq @ ''negative'' @ sq @ '' for the '' @ bq ''sentiment''
       @ '' field.\<newline>''
     @ ''5.  **Pain Points:** List specific, concrete frustrations or challenges the user faces ''
       @ ''with Spotify, derived from cluster keywords and feedback.\<newline>''
     @ ''6.  **JSON Output:** Return ONLY a valid JSON list containing the persona objects. ''
       @ ''Do NOT include any explanatory text before or after the JSON block.\<newline>''
     @ ''7.  **Format:** Your response MUST be a valid JSON array starting with [ and ending ''
       @ ''with ]. Each persona object must have all required fields.\<newline>\<newline>''
     @ ''**Cluster Summaries:**\<newline>'' @ cluster_summary_str @ ''\<newline>\<newline>''
     @ ''**Required JSON Format Example:**\<newline>'' @ json_format_example
       @ ''\<newline>\<newline>''
     @ ''Generate the JSON output now. Remember to:\<newline>''
     @ ''- Start with [\<newline>''
     @ ''- End with ]\<newline>''
     @ ''- Include all required fields for each persona\<newline>''
     @ ''- Do not add any text before or after the JSON\<newline>''
     @ ''- Ensure the JSON is properly formatted and valid''"

text \<open>The response without its markdown fence.\<close>

definition clean_response :: "string \<Rightarrow> string" where
  "clean_response raw_response =
     (let c0 = strip raw_response;
          c1 = (if startswith c0 ''```json'' then drop 7 c0 else c0);
          c2 = (if endswith c1 ''```'' then slice_to (- 3) c1 else c1)
      in strip c2)"

definition required_keys :: "string list" where
  "required_keys = [''name'', ''background'', ''quote'', ''sentiment'', ''pain_points'',
     ''inspired_by_cluster_id'']"

text \<open>
  The body of \<open>for i, item in enumerate(parsed_json)\<close>: \<open>None\<close> when the item is skipped
  (\<open>continue\<close>), the persona when it is appended. \<open>.lower()\<close> on a sentiment that is not
  a string raises \<open>AttributeError\<close>.
\<close>

definition validate_item :: "env \<Rightarrow> pyval \<Rightarrow> exn + Persona option" where
  "validate_item E item =
     (case item of
        PDict d \<Rightarrow>
          if \<not> list_all (has_key d) required_keys then Inr None
          else (case dict_get d ''sentiment'' (PStr []) of
             PStr raw_sentiment \<Rightarrow>
               (let sentiment' = lower E raw_sentiment in
                if sentiment' \<notin> set [''positive'', ''neutral'', ''negative''] then Inr None
                else (case dict_get d ''pain_points'' (PList []) of
                   PList pps \<Rightarrow>
                     if \<not> list_all is_str pps then Inr None
                     else
                       (let cluster_id = (case dict_get d ''inspired_by_cluster_id'' PNone of
                                            PNone \<Rightarrow> None
                                          | PStr c \<Rightarrow> Some c
                                          | v \<Rightarrow> Some (py_str E v))
                        in Inr (Some \<lparr>name = py_str E (dict_get d ''name'' PNone),
                                      background = py_str E (dict_get d ''background'' PNone),
                                      quote = py_str E (dict_get d ''quote'' PNone),
                                      sentiment = sentiment',
                                      pain_points = map (py_str E) pps,
                                      inspired_by_cluster_id = cluster_id\<rparr>))
                 | _ \<Rightarrow> Inr None))
           | _ \<Rightarrow> Inl AttributeError)
      | _ \<Rightarrow> Inr None)"

text \<open>The loop: the personas appended, in order, or the exception that ends it.\<close>

fun validate_items :: "env \<Rightarrow> pyval list \<Rightarrow> exn + Persona list" where
  "validate_items E [] = Inr []"
| "validate_items E (item # rest) =
     (case validate_item E item of
        Inl e \<Rightarrow> Inl e
      | Inr None \<Rightarrow> validate_items E rest
      | Inr (Some p) \<Rightarrow>
          (case validate_items E rest of Inl e \<Rightarrow> Inl e | Inr ps \<Rightarrow> Inr (p # ps)))"

text \<open>
  Sections 3 and 4 of \<open>generate_personas\<close> after the completion call: every exception
  raised there is caught by one of the handlers, and each handler returns the empty list.
  A text that starts with a bracket and ends with one parses to a list.
\<close>

definition personas_of_response :: "env \<Rightarrow> int \<Rightarrow> string \<Rightarrow> Persona list" where
  "personas_of_response E count' raw_response =
     (let cleaned_response = clean_response raw_response in
      if \<not> startswith cleaned_response ''['' \<or> \<not> endswith cleaned_response '']'' then []
      else case json_loads E cleaned_response of
        Inl e \<Rightarrow> []
      | Inr parsed_json \<Rightarrow>
          (case items_of parsed_json of
             Inl e \<Rightarrow> []
           | Inr items \<Rightarrow>
               (case validate_items E items of
                  Inl e \<Rightarrow> []
                | Inr ps \<Rightarrow>
                    (let validated_count = int (length ps) in
                     if validated_count < count' then ps
                     else if validated_count > count' then slice_to count' ps
                     else ps))))"

definition generate_personas ::
  "env \<Rightarrow> calls \<Rightarrow> pydict \<Rightarrow> int \<Rightarrow> (exn + Persona list) \<times> calls" where
  "generate_personas E lg clusters count' =
     (if clusters = [] then (Inr [], lg)
      else if count' \<le> 0 then (Inr [], lg)
      else
        (let num_to_select = min count' (int (length clusters)) in
         if \<not> num_to_select < count' \<and> num_to_select = 0 then (Inr [], lg)
         else case persona_details E (slice_to num_to_select clusters) of
           Inl e \<Rightarrow> (Inl e, lg)
         | Inr cluster_details_list \<Rightarrow>
             if cluster_details_list = [] then (Inr [], lg)
             else (case ask_llm E lg
                          (persona_prompt count' (join (backslash @ ''n'') cluster_details_list)) of
                     (Inl e, lg') \<Rightarrow> (Inr [], lg')
                   | (Inr raw_response, lg') \<Rightarrow>
                       (Inr (personas_of_response E count' raw_response), lg'))))"

section \<open>Meeting summary\<close>

definition summary_prompt :: "string \<Rightarrow> string" where
  "summary_prompt t =
     ''You are an expert meeting summarizer. Analyze the virtual user board meeting transcript ''
       @ ''provided below.\<newline>''
     @ ''Your summary MUST include these sections in markdown format:\<newline>\<newline>''
     @ ''1.  **Pros & Cons per Feature:** For each proposed feature, list the key advantages ''
       @ ''(Pros) and disadvantages or concerns (Cons) raised by the participants. ''
       @ ''Be specific.\<newline>''
     @ ''2.  **Overall Sentiment & Key Takeaways per Persona:** Briefly describe each persona''
       @ sq @ ''s overall stance, highlighting their main points, priorities, or key ''
       @ ''concerns.\<newline>''
     @ ''3.  **Points of Agreement & Disagreement:** Note any areas where personas strongly ''
       @ ''agreed or disagreed with each other.\<newline>''
     @ ''4.  **Final Recommendation:** Provide a concise (1-3 sentences) go/no-go/conditional ''
       @ ''recommendation for the features, explicitly mentioning the rationale based on the ''
       @ ''discussion (e.g., priority, concerns raised).\<newline>\<newline>''
     @ ''---\<newline>''
     @ t @ ''\<newline>''
     @ ''---\<newline>''
     @ ''Generate the summary now.''"

definition summary_failed :: string where
  "summary_failed = ''Error: Failed to generate meeting summary due to: ''"

definition summarise_meeting :: "env \<Rightarrow> calls \<Rightarrow> string \<Rightarrow> string \<times> calls" where
  "summarise_meeting E lg t =
     (if strip t = [] then (''Error: Transcript was empty.'', lg)
      else case ask_llm E lg (summary_prompt t) of
        (Inr summary, lg') \<Rightarrow> (summary, lg')
      | (Inl e, lg') \<Rightarrow> (summary_failed @ str_exn E e, lg'))"

section \<open>Configuration\<close>



section \<open>Report writer\<close>

















section \<open>Pipeline\<close>

text \<open>
  \<open>AgentState\<close>, the dictionary passed from node to node. The key \<open>transcript\<close> is the
  field \<open>transcript_md\<close> here, after the variable stored under it.
\<close>

record AgentState =
  selected_clusters :: pydict
  features :: "FeatureProposal list"
  personas :: "Persona list"
  transcript_md :: string
  conversation_history :: "BaseMessage list"
  summary :: string
  error :: "string option"









section \<open>Notions used to state the properties\<close>

subsection \<open>The shape of the global history\<close>

fun is_human :: "BaseMessage \<Rightarrow> bool" where
  "is_human (HumanMessage c) = True"
| "is_human m = False"

fun is_ai :: "BaseMessage \<Rightarrow> bool" where
  "is_ai (AIMessage c) = True"
| "is_ai m = False"

text \<open>
  A history is grouped by \<open>P\<close> when it is a sequence of blocks, each one human entry
  followed by exactly \<open>P\<close> assistant entries.
\<close>

fun grouped :: "nat \<Rightarrow> BaseMessage list \<Rightarrow> bool" where
  "grouped P [] = True"
| "grouped P (m # ms) =
     (is_human m \<and> P \<le> length ms \<and> list_all is_ai (take P ms) \<and> grouped P (drop P ms))"

text \<open>
  The turns of a round are the personas in the order they spoke, each with its reply. The
  entries a round adds to the global history and the lines it adds to the transcript:
\<close>

definition history_block :: "string \<Rightarrow> (Persona \<times> string) list \<Rightarrow> BaseMessage list" where
  "history_block fac turns = HumanMessage fac # map (\<lambda>(p, reply). AIMessage reply) turns"

definition transcript_block :: "int \<Rightarrow> string \<Rightarrow> (Persona \<times> string) list \<Rightarrow> string list" where
  "transcript_block r fac turns =
     [facilitator_heading r, fac] @ concat (map (\<lambda>(p, reply). [persona_heading p, reply]) turns)"

definition history_of_rounds ::
  "FeatureProposal list \<Rightarrow> int list \<Rightarrow> (Persona \<times> string) list list \<Rightarrow> BaseMessage list" where
  "history_of_rounds fs rs turnss =
     concat (map (\<lambda>(r, turns). history_block (fac_input fs r) turns) (zip rs turnss))"

definition transcript_of_rounds ::
  "FeatureProposal list \<Rightarrow> int list \<Rightarrow> (Persona \<times> string) list list \<Rightarrow> string list" where
  "transcript_of_rounds fs rs turnss =
     concat (map (\<lambda>(r, turns). transcript_block r (fac_input fs r) turns) (zip rs turnss))"

subsection \<open>The vote of a reply, as the specification words it\<close>

text \<open>
  The first feature, in the order of the list, whose description is contained in the reply
  when case is ignored gets one more vote; no other entry changes; a reply that names no
  feature changes nothing.
\<close>

definition first_match_vote ::
  "env \<Rightarrow> FeatureProposal list \<Rightarrow> string \<Rightarrow> (string \<rightharpoonup> int) \<Rightarrow> (string \<rightharpoonup> int)" where
  "first_match_vote E fs reply v =
     (case find (\<lambda>f. mentions E f reply) fs of
        None \<Rightarrow> v
      | Some f \<Rightarrow> v(description f \<mapsto> votes_of v (description f) + 1))"

definition votes_of_turns ::
  "env \<Rightarrow> FeatureProposal list \<Rightarrow> (Persona \<times> string) list \<Rightarrow> (string \<rightharpoonup> int)" where
  "votes_of_turns E fs turns = foldl (\<lambda>v (p, reply). first_match_vote E fs reply v) Map.empty turns"

subsection \<open>The simulation without the tally\<close>

text \<open>
  \<open>simulate_board\<close> with the block \<open>if r == rounds: ...\<close> at the end of a turn removed,
  for comparison with the simulation as it is.
\<close>

definition persona_turn_no_tally ::
  "env \<Rightarrow> FeatureProposal list \<Rightarrow> int \<Rightarrow> board \<Rightarrow> Persona \<Rightarrow> (exn \<times> board) + board" where
  "persona_turn_no_tally E fs r s p =
     (case chains s (name p) of
        None \<Rightarrow> Inl (KeyError, s)
      | Some chain \<Rightarrow>
          (case predict E chain (fac_input fs r) (llm_calls s) of
             (res, chain', lg') \<Rightarrow>
               let reply = (case res of Inr out \<Rightarrow> strip out | Inl e \<Rightarrow> error_reply)
               in Inr (s\<lparr>chains := (chains s)(name p \<mapsto> chain'),
                         llm_calls := lg',
                         transcript := transcript s @ [persona_heading p, reply],
                         global_history := global_history s @ [AIMessage reply]\<rparr>)))"

fun run_turns_no_tally ::
  "env \<Rightarrow> FeatureProposal list \<Rightarrow> int \<Rightarrow> board \<Rightarrow> Persona list \<Rightarrow> (exn \<times> board) + board" where
  "run_turns_no_tally E fs r s [] = Inr s"
| "run_turns_no_tally E fs r s (p # ps) =
     (case persona_turn_no_tally E fs r s p of
        Inl e \<Rightarrow> Inl e
      | Inr s' \<Rightarrow> run_turns_no_tally E fs r s' ps)"

definition run_round_no_tally ::
  "env \<Rightarrow> Persona list \<Rightarrow> FeatureProposal list \<Rightarrow> int \<Rightarrow> board \<Rightarrow> (exn \<times> board) + board" where
  "run_round_no_tally E ps fs r s =
     (let s1 = s\<lparr>transcript := transcript s @ [facilitator_heading r, fac_input fs r],
                 global_history := global_history s @ [HumanMessage (fac_input fs r)]\<rparr>;
          order = shuffle (rng E r) ps
      in run_turns_no_tally E fs r s1 order)"

fun run_rounds_no_tally ::
  "env \<Rightarrow> Persona list \<Rightarrow> FeatureProposal list \<Rightarrow> board \<Rightarrow> int list \<Rightarrow> (exn \<times> board) + board" where
  "run_rounds_no_tally E ps fs s [] = Inr s"
| "run_rounds_no_tally E ps fs s (r # rs) =
     (case run_round_no_tally E ps fs r s of
        Inl e \<Rightarrow> Inl e
      | Inr s' \<Rightarrow> run_rounds_no_tally E ps fs s' rs)"

definition simulate_board_no_tally ::
  "env \<Rightarrow> calls \<Rightarrow> Persona list \<Rightarrow> FeatureProposal list \<Rightarrow> int
     \<Rightarrow> (exn + string \<times> BaseMessage list) \<times> calls" where
  "simulate_board_no_tally E lg ps fs rounds =
     (if ps = [] \<or> fs = [] then (Inr ('''', []), lg)
      else case run_rounds_no_tally E ps fs (init_board ps lg) [1..rounds] of
             Inl (e, s) \<Rightarrow> (Inl e, llm_calls s)
           | Inr s \<Rightarrow> (Inr (join ''\<newline>'' (transcript s), global_history s), llm_calls s))"

text \<open>Two states that differ in the tally at most.\<close>

definition same_but_votes :: "board \<Rightarrow> board \<Rightarrow> bool" where
  "same_but_votes s s' =
     (chains s = chains s' \<and> transcript s = transcript s'
      \<and> global_history s = global_history s' \<and> llm_calls s = llm_calls s')"

section \<open>Concrete inputs\<close>

definition ascii_lower :: "char \<Rightarrow> char" where
  "ascii_lower c = (let n = (of_char c :: nat) in if 65 \<le> n \<and> n \<le> 90 then char_of (n + 32) else c)"

definition ascii_upper :: "char \<Rightarrow> char" where
  "ascii_upper c = (let n = (of_char c :: nat) in if 97 \<le> n \<and> n \<le> 122 then char_of (n - 32) else c)"

definition text_of_exn :: "exn \<Rightarrow> string" where
  "text_of_exn e = (case e of ServiceError m \<Rightarrow> m | _ \<Rightarrow> ''error'')"

text \<open>
  A service that answers the \<open>k\<close>-th request with \<open>reply k\<close>, that answer naming the feature
  \<open>Dark mode\<close>; the random numbers exchange the two personas in the even rounds.
\<close>

definition echo_env :: env where
  "echo_env =
     \<lparr>llm_invoke = (\<lambda>k prompt. Inr (''reply '' @ str_nat k @ '': dark mode, then Sleep Timer '')),
      rng = (\<lambda>r i. nat r),
      lower = map ascii_lower,
      capitalize = (\<lambda>s. case s of [] \<Rightarrow> [] | c # cs \<Rightarrow> ascii_upper c # map ascii_lower cs),
      str_exn = text_of_exn,
      repr_of = (\<lambda>v. ''?''),
      format_2f = (\<lambda>x. ''0.00''),
      json_loads = (\<lambda>s. Inl JSONDecodeError),
      dict_slice_exn = TypeError,
      now = ''2025-01-01 00:00 UTC'',
      report_opens = True\<rparr>"

text \<open>Two services that raise on every request, with different messages.\<close>

definition timeout_env :: env where
  "timeout_env = echo_env\<lparr>llm_invoke := (\<lambda>k prompt. Inl (ServiceError ''timeout''))\<rparr>"

definition quota_env :: env where
  "quota_env = echo_env\<lparr>llm_invoke := (\<lambda>k prompt. Inl (ServiceError ''quota''))\<rparr>"

definition ann :: Persona where
  "ann = \<lparr>name = ''Ann'', background = ''Commuter'', quote = ''Too many ads'',
     sentiment = ''negative'', pain_points = [''ads'', ''battery''],
     inspired_by_cluster_id = Some ''0''\<rparr>"

definition bob :: Persona where
  "bob = \<lparr>name = ''Bob'', background = ''Student'', quote = ''Love the playlists'',
     sentiment = ''positive'', pain_points = [''price''], inspired_by_cluster_id = None\<rparr>"

text \<open>A second persona that carries the name of the first.\<close>

definition ann2 :: Persona where
  "ann2 = \<lparr>name = ''Ann'', background = ''Retired teacher'', quote = ''Where is my library'',
     sentiment = ''neutral'', pain_points = [''navigation''], inspired_by_cluster_id = Some ''1''\<rparr>"

definition sleep_timer :: FeatureProposal where
  "sleep_timer = \<lparr>id' = 1, description = ''Sleep timer''\<rparr>"

definition dark_mode :: FeatureProposal where
  "dark_mode = \<lparr>id' = 2, description = ''Dark mode''\<rparr>"

text \<open>A well-formed cluster, one whose keywords are numbers, one whose average is a string.\<close>

definition good_cluster :: pyval where
  "good_cluster = PDict [(''keywords'', PList [PStr ''ads'', PStr ''premium'']),
     (''sentiment_dist'', PDict [(''negative'', PInt 7), (''positive'', PInt 2)]),
     (''samples'', PList [PStr ''Too many ads between songs''])]"

definition bad_keywords_cluster :: pyval where
  "bad_keywords_cluster = PDict [(''keywords'', PList [PInt 1, PInt 2]),
     (''sentiment_dist'', PDict [(''negative'', PInt 3)]),
     (''samples'', PList [PStr ''Crashes on start''])]"

definition bad_average_cluster :: pyval where
  "bad_average_cluster = PDict [(''keywords'', PList [PStr ''offline'']),
     (''sentiment_dist'', PDict [(''negative'', PInt 4)]),
     (''samples'', PList [PStr ''Downloads vanish'']),
     (''avg_sentiment'', PStr ''low'')]"



text \<open>
  A parsed response of four items: two valid personas, one item without \<open>quote\<close>, a third
  valid persona; and a service that answers with a text the parser maps to it.
\<close>

definition persona_item :: "string \<Rightarrow> string \<Rightarrow> pyval" where
  "persona_item n s = PDict [(''name'', PStr n), (''background'', PStr ''b''),
     (''quote'', PStr ''q''), (''sentiment'', PStr s), (''pain_points'', PList [PStr ''p'']),
     (''inspired_by_cluster_id'', PInt 3)]"

definition no_quote_fields :: pydict where
  "no_quote_fields = [(''name'', PStr ''Dan''), (''background'', PStr ''b''),
     (''sentiment'', PStr ''neutral''), (''pain_points'', PList []),
     (''inspired_by_cluster_id'', PNone)]"

definition no_quote_item :: pyval where
  "no_quote_item = PDict no_quote_fields"

definition parsed_items :: "pyval list" where
  "parsed_items = [persona_item ''Cy'' ''Positive'', no_quote_item,
     persona_item ''Eve'' ''neutral'', persona_item ''Flo'' ''NEGATIVE'']"

definition json_env :: env where
  "json_env = echo_env
     \<lparr>llm_invoke := (\<lambda>k prompt. Inr ''```json [4 items] ```''),
      json_loads := (\<lambda>s. if s = ''[4 items]'' then Inr (PList parsed_items)
                         else Inl JSONDecodeError)\<rparr>"

section \<open>Facts about the simulation\<close>

subsection \<open>The shuffle is a permutation\<close>

lemma shuffle_from_mset: "i < length xs \<Longrightarrow> mset (shuffle_from rnd i xs) = mset xs"
proof (induction i arbitrary: xs)
  case 0
  then show ?case by simp
next
  case (Suc i)
  let ?j = "rnd (Suc i) mod Suc (Suc i)"
  have "?j < Suc (Suc i)" by simp
  with Suc.prems have j: "?j < length xs" by linarith
  have "mset (xs[Suc i := xs ! ?j, ?j := xs ! Suc i]) = mset xs"
    using mset_swap [OF j Suc.prems] .
  moreover have "i < length (xs[Suc i := xs ! ?j, ?j := xs ! Suc i])"
    using Suc.prems by simp
  ultimately show ?case using Suc.IH by (simp add: Let_def)
qed

lemma shuffle_mset: "mset (shuffle rnd xs) = mset xs"
proof (cases xs)
  case Nil
  then show ?thesis by (simp add: shuffle_def)
next
  case (Cons a list)
  then show ?thesis by (simp add: shuffle_def shuffle_from_mset)
qed

lemma shuffle_set: "set (shuffle rnd xs) = set xs"
  using shuffle_mset [of rnd xs] by (metis set_mset_mset)

subsection \<open>Every turn finds its chain\<close>

lemma dom_init_chains: "dom (init_chains ps ch) = dom ch \<union> name ` set ps"
  by (induction ps arbitrary: ch) auto

lemma persona_turn_Inr:
  assumes "name p \<in> dom (chains s)"
  shows "\<exists>s' reply. persona_turn E fs R r s p = Inr s'
     \<and> global_history s' = global_history s @ [AIMessage reply]
     \<and> transcript s' = transcript s @ [persona_heading p, reply]
     \<and> dom (chains s') = dom (chains s)
     \<and> priority_votes s' =
         (if r = R then tally E fs reply (priority_votes s) else priority_votes s)"
proof -
  from assms obtain c where c: "chains s (name p) = Some c" by auto
  obtain res c' lg' where pr: "predict E c (fac_input fs r) (llm_calls s) = (res, c', lg')"
    by (cases "predict E c (fac_input fs r) (llm_calls s)") auto
  let ?reply = "case res of Inr out \<Rightarrow> strip out | Inl e \<Rightarrow> error_reply"
  from assms have "insert (name p) (dom (chains s)) = dom (chains s)" by auto
  with c pr have "\<exists>s'. persona_turn E fs R r s p = Inr s'
     \<and> global_history s' = global_history s @ [AIMessage ?reply]
     \<and> transcript s' = transcript s @ [persona_heading p, ?reply]
     \<and> dom (chains s') = dom (chains s)
     \<and> priority_votes s' =
         (if r = R then tally E fs ?reply (priority_votes s) else priority_votes s)"
    by (simp add: persona_turn_def Let_def)
  then show ?thesis by blast
qed

lemma run_turns_Inr:
  assumes "name ` set ps \<subseteq> dom (chains s)"
  shows "\<exists>s' turns. run_turns E fs R r s ps = Inr s'
     \<and> map fst turns = ps
     \<and> global_history s' = global_history s @ map (\<lambda>(p, reply). AIMessage reply) turns
     \<and> transcript s' = transcript s @ concat (map (\<lambda>(p, reply). [persona_heading p, reply]) turns)
     \<and> dom (chains s') = dom (chains s)
     \<and> priority_votes s' =
         (if r = R then foldl (\<lambda>v (p, reply). tally E fs reply v) (priority_votes s) turns
          else priority_votes s)"
  using assms
proof (induction ps arbitrary: s)
  case Nil
  then show ?case by simp
next
  case (Cons p ps)
  from Cons.prems have "name p \<in> dom (chains s)" by simp
  from persona_turn_Inr [OF this, of E fs R r] obtain s1 reply where
    s1: "persona_turn E fs R r s p = Inr s1"
      "global_history s1 = global_history s @ [AIMessage reply]"
      "transcript s1 = transcript s @ [persona_heading p, reply]"
      "dom (chains s1) = dom (chains s)"
      "priority_votes s1 =
         (if r = R then tally E fs reply (priority_votes s) else priority_votes s)"
    by blast
  from Cons.prems s1(4) have "name ` set ps \<subseteq> dom (chains s1)" by simp
  from Cons.IH [OF this] obtain s' turns where
    s': "run_turns E fs R r s1 ps = Inr s'" "map fst turns = ps"
      "global_history s' = global_history s1 @ map (\<lambda>(p, reply). AIMessage reply) turns"
      "transcript s' = transcript s1 @ concat (map (\<lambda>(p, reply). [persona_heading p, reply]) turns)"
      "dom (chains s') = dom (chains s1)"
      "priority_votes s' =
         (if r = R then foldl (\<lambda>v (p, reply). tally E fs reply v) (priority_votes s1) turns
          else priority_votes s1)"
    by blast
  show ?case
    apply (rule exI [of _ s'])
    apply (rule exI [of _ "(p, reply) # turns"])
    using s1 s' by simp
qed

lemma run_round_Inr:
  assumes "name ` set ps \<subseteq> dom (chains s)"
  shows "\<exists>s' turns. run_round E ps fs R r s = Inr s'
     \<and> mset (map fst turns) = mset ps
     \<and> global_history s' = global_history s @ history_block (fac_input fs r) turns
     \<and> transcript s' = transcript s @ transcript_block r (fac_input fs r) turns
     \<and> dom (chains s') = dom (chains s)
     \<and> priority_votes s' =
         (if r = R then foldl (\<lambda>v (p, reply). tally E fs reply v) (priority_votes s) turns
          else priority_votes s)"
proof -
  let ?s1 = "s\<lparr>transcript := transcript s @ [facilitator_heading r, fac_input fs r],
               global_history := global_history s @ [HumanMessage (fac_input fs r)]\<rparr>"
  let ?order = "shuffle (rng E r) ps"
  from assms have "name ` set ?order \<subseteq> dom (chains ?s1)" by (simp add: shuffle_set)
  from run_turns_Inr [OF this, of E fs R r] obtain s' turns where
    s': "run_turns E fs R r ?s1 ?order = Inr s'" "map fst turns = ?order"
      "global_history s' = global_history ?s1 @ map (\<lambda>(p, reply). AIMessage reply) turns"
      "transcript s' = transcript ?s1 @ concat (map (\<lambda>(p, reply). [persona_heading p, reply]) turns)"
      "dom (chains s') = dom (chains ?s1)"
      "priority_votes s' =
         (if r = R then foldl (\<lambda>v (p, reply). tally E fs reply v) (priority_votes ?s1) turns
          else priority_votes ?s1)"
    by blast
  show ?thesis
    apply (rule exI [of _ s'])
    apply (rule exI [of _ turns])
    using s' by (simp add: run_round_def Let_def history_block_def transcript_block_def shuffle_mset)
qed

lemma run_rounds_Inr:
  assumes "name ` set ps \<subseteq> dom (chains s)"
  shows "\<exists>s' turnss. run_rounds E ps fs R s rs = Inr s'
     \<and> length turnss = length rs
     \<and> (\<forall>turns \<in> set turnss. mset (map fst turns) = mset ps)
     \<and> global_history s' = global_history s @ history_of_rounds fs rs turnss
     \<and> transcript s' = transcript s @ transcript_of_rounds fs rs turnss
     \<and> priority_votes s' =
         foldl (\<lambda>v (r, turns). if r = R then foldl (\<lambda>v (p, reply). tally E fs reply v) v turns else v)
           (priority_votes s) (zip rs turnss)"
  using assms
proof (induction rs arbitrary: s)
  case Nil
  then show ?case by (simp add: history_of_rounds_def transcript_of_rounds_def)
next
  case (Cons r rs)
  from run_round_Inr [OF Cons.prems, of E fs R r] obtain s1 turns where
    s1: "run_round E ps fs R r s = Inr s1" "mset (map fst turns) = mset ps"
      "global_history s1 = global_history s @ history_block (fac_input fs r) turns"
      "transcript s1 = transcript s @ transcript_block r (fac_input fs r) turns"
      "dom (chains s1) = dom (chains s)"
      "priority_votes s1 =
         (if r = R then foldl (\<lambda>v (p, reply). tally E fs reply v) (priority_votes s) turns
          else priority_votes s)"
    by blast
  from Cons.prems s1(5) have "name ` set ps \<subseteq> dom (chains s1)" by simp
  from Cons.IH [OF this] obtain s' turnss where
    s': "run_rounds E ps fs R s1 rs = Inr s'" "length turnss = length rs"
      "\<forall>turns \<in> set turnss. mset (map fst turns) = mset ps"
      "global_history s' = global_history s1 @ history_of_rounds fs rs turnss"
      "transcript s' = transcript s1 @ transcript_of_rounds fs rs turnss"
      "priority_votes s' =
         foldl (\<lambda>v (r, turns). if r = R then foldl (\<lambda>v (p, reply). tally E fs reply v) v turns else v)
           (priority_votes s1) (zip rs turnss)"
    by blast
  show ?case
    apply (rule exI [of _ s'])
    apply (rule exI [of _ "turns # turnss"])
    using s1 s' by (simp add: history_of_rounds_def transcript_of_rounds_def)
qed

lemma board_loop_Inr:
  "\<exists>s' turnss. board_loop E lg ps fs R = Inr s'
     \<and> length turnss = length [1..R]
     \<and> (\<forall>turns \<in> set turnss. mset (map fst turns) = mset ps)
     \<and> global_history s' = history_of_rounds fs [1..R] turnss
     \<and> transcript s' = transcript_of_rounds fs [1..R] turnss
     \<and> priority_votes s' =
         foldl (\<lambda>v (r, turns). if r = R then foldl (\<lambda>v (p, reply). tally E fs reply v) v turns else v)
           Map.empty (zip [1..R] turnss)"
proof -
  have "name ` set ps \<subseteq> dom (chains (init_board ps lg))"
    by (simp add: init_board_def dom_init_chains)
  from run_rounds_Inr [OF this, of E fs R "[1..R]"] show ?thesis
    by (simp add: board_loop_def init_board_def)
qed

subsection \<open>Histories made of rounds\<close>

lemma history_of_rounds_shape:
  assumes "length turnss = length rs" and "\<forall>turns \<in> set turnss. length turns = P"
  shows "length (filter is_human (history_of_rounds fs rs turnss)) = length rs
     \<and> length (filter is_ai (history_of_rounds fs rs turnss)) = length rs * P
     \<and> grouped P (history_of_rounds fs rs turnss)"
  using assms
proof (induction rs arbitrary: turnss)
  case Nil
  then show ?case by (simp add: history_of_rounds_def)
next
  case (Cons r rs)
  then obtain turns rest where t: "turnss = turns # rest"
    by (cases turnss) auto
  with Cons.prems have len: "length rest = length rs" "length turns = P"
    "\<forall>turns \<in> set rest. length turns = P"
    by auto
  let ?ai = "map (\<lambda>(p, reply). AIMessage reply) turns"
  have ai: "filter is_human ?ai = []" "filter is_ai ?ai = ?ai" "list_all is_ai ?ai"
    by (induction turns) auto
  have unfold_round: "history_of_rounds fs (r # rs) turnss
      = HumanMessage (fac_input fs r) # ?ai @ history_of_rounds fs rs rest"
    using t by (simp add: history_of_rounds_def history_block_def)
  from Cons.IH [OF len(1) len(3)] show ?case
    unfolding unfold_round using ai len(2) by simp
qed

section \<open>The claims on the board simulation\<close>


text \<open>
  C7. When the persona list or the feature list is empty, \<open>simulate_board\<close> returns the
  empty transcript and the empty history, whatever the number of rounds, and the log of the
  requests is the one it was called with: no round is run and the completion service is
  not called.
\<close>

theorem simulate_board_empty_input:
  assumes "ps = [] \<or> fs = []"
  shows "simulate_board E lg ps fs R = (Inr ('''', []), lg)"
  using assms by (simp add: simulate_board_def)

theorem simulate_board_empty_input_witness:
  "(([] :: Persona list) = [] \<or> [sleep_timer] = [])
   \<and> simulate_board echo_env [] [] [sleep_timer] 3 = (Inr ('''', []), [])
   \<and> ([ann, bob] = [] \<or> ([] :: FeatureProposal list) = [])
   \<and> simulate_board timeout_env [''earlier request''] [ann, bob] [] 3
       = (Inr ('''', []), [''earlier request''])"
  using simulate_board_empty_input [of "[]" "[sleep_timer]" echo_env "[]" 3]
    simulate_board_empty_input [of "[ann, bob]" "[]" timeout_env "[''earlier request'']" 3]
  by simp

text \<open>
  C2. For a non-empty persona list of length \<open>P\<close>, a non-empty feature list and \<open>R \<ge> 1\<close>
  rounds, \<open>simulate_board\<close> returns, and the global history it returns is made of \<open>R\<close>
  blocks, one per round in order: the facilitator message of the round as a human entry,
  then one assistant entry for each turn of the round, the personas of the turns being a
  permutation of the persona list. So the history holds exactly \<open>R\<close> human entries and
  exactly \<open>R * P\<close> assistant entries, and is grouped by \<open>P\<close>.
\<close>

theorem simulate_board_history_shape:
  assumes "ps \<noteq> []" and "fs \<noteq> []" and "1 \<le> R"
  shows "\<exists>t h lg' turnss.
      simulate_board E lg ps fs R = (Inr (t, h), lg')
    \<and> length turnss = nat R
    \<and> (\<forall>turns \<in> set turnss. mset (map fst turns) = mset ps)
    \<and> h = history_of_rounds fs [1..R] turnss
    \<and> length (filter is_human h) = nat R
    \<and> length (filter is_ai h) = nat R * length ps
    \<and> grouped (length ps) h"
proof -
  from board_loop_Inr [of E lg ps fs R] obtain s' turnss where
    run: "board_loop E lg ps fs R = Inr s'"
    and len: "length turnss = length [1..R]"
    and perm: "\<forall>turns \<in> set turnss. mset (map fst turns) = mset ps"
    and h: "global_history s' = history_of_rounds fs [1..R] turnss"
    by blast
  have each: "\<forall>turns \<in> set turnss. length turns = length ps"
  proof
    fix turns assume "turns \<in> set turnss"
    with perm have "mset (map fst turns) = mset ps" by blast
    then have "length (map fst turns) = length ps" by (rule mset_eq_length)
    then show "length turns = length ps" by simp
  qed
  from assms(3) have lenR: "length [1..R] = nat R" by simp
  from history_of_rounds_shape [OF len each, of fs] lenR
  have shape: "length (filter is_human (history_of_rounds fs [1..R] turnss)) = nat R"
    "length (filter is_ai (history_of_rounds fs [1..R] turnss)) = nat R * length ps"
    "grouped (length ps) (history_of_rounds fs [1..R] turnss)"
    by simp_all
  have "simulate_board E lg ps fs R
      = (Inr (join ''\<newline>'' (transcript s'), global_history s'), llm_calls s')"
    using assms(1,2) run by (simp add: simulate_board_def)
  with len lenR perm h shape show ?thesis by auto
qed

theorem simulate_board_history_shape_witness:
  "[ann, bob] \<noteq> [] \<and> [sleep_timer, dark_mode] \<noteq> [] \<and> (1 :: int) \<le> 2
   \<and> (\<exists>t h lg'. simulate_board echo_env [] [ann, bob] [sleep_timer, dark_mode] 2 = (Inr (t, h), lg')
        \<and> length (filter is_human h) = 2 \<and> length (filter is_ai h) = 4 \<and> grouped 2 h)"
proof -
  have hyp: "[ann, bob] \<noteq> []" "[sleep_timer, dark_mode] \<noteq> []" "(1 :: int) \<le> 2" by simp_all
  from simulate_board_history_shape [OF hyp, of echo_env "[]"] show ?thesis
    by (auto simp: numeral_2_eq_2)
qed


subsection \<open>The tally\<close>

lemma tally_first_match: "tally E fs reply v = first_match_vote E fs reply v"
  by (induction fs) (auto simp: first_match_vote_def fun_upd_def)

lemma first_match_vote_changes_one:
  assumes "\<exists>f \<in> set fs. mentions E f reply"
  shows "\<exists>!k. first_match_vote E fs reply v k \<noteq> v k"
proof -
  from assms obtain f where f: "find (\<lambda>f. mentions E f reply) fs = Some f"
    by (cases "find (\<lambda>f. mentions E f reply) fs") (auto simp: find_None_iff)
  have new: "first_match_vote E fs reply v = v(description f \<mapsto> votes_of v (description f) + 1)"
    using f by (simp add: first_match_vote_def)
  have "v (description f) \<noteq> Some (votes_of v (description f) + 1)"
    by (cases "v (description f)") (simp_all add: votes_of_def)
  then show ?thesis unfolding new
    by (intro ex1I [of _ "description f"]) (auto split: if_splits)
qed

lemma votes_skip_rounds:
  assumes "\<forall>r \<in> set rs. r \<noteq> R"
  shows "foldl (\<lambda>v (r, turns). if r = R then g v turns else v) v0 (zip rs turnss) = v0"
  using assms
proof (induction rs arbitrary: turnss v0)
  case Nil
  then show ?case by simp
next
  case (Cons r rs)
  then show ?case by (cases turnss) auto
qed

lemma votes_last_round:
  assumes "1 \<le> R" and "length turnss = nat R"
  shows "foldl (\<lambda>v (r, turns). if r = R then g v turns else v) v0 (zip [1..R] turnss)
     = g v0 (last turnss)"
proof -
  from assms have ne: "turnss \<noteq> []" by auto
  have rs: "[1..R] = [1..R - 1] @ [R]" using assms(1) by (simp add: upto_rec2)
  have ts: "turnss = butlast turnss @ [last turnss]" using ne by simp
  have len: "length [1..R - 1] = length (butlast turnss)" using assms by simp
  have "zip [1..R] turnss = zip [1..R - 1] (butlast turnss) @ [(R, last turnss)]"
    using zip_append [OF len, of "[R]" "[last turnss]"] rs ts by simp
  moreover have "\<forall>r \<in> set [1..R - 1]. r \<noteq> R" by simp
  ultimately show ?thesis by (simp add: votes_skip_rounds)
qed

text \<open>
  C3. A simulation of \<open>R \<ge> 1\<close> rounds returns, and its rounds are \<open>R\<close> lists of turns, each
  with one turn (the persona and its reply) for every persona of the list, which are the
  turns the history and the transcript record. The tally at the end is the tally of the
  turns of round \<open>R\<close> alone, taken in their order from an empty tally: the replies of the
  rounds before it add nothing. For each reply the scan of the feature list in its original
  order does what the specification says: the first feature whose description is contained
  in the reply, both in lower case, gets one more vote and the scan stops. A reply that
  contains the description of some feature, or of several, changes exactly one entry of
  the tally.
\<close>

theorem votes_only_in_final_round:
  assumes "1 \<le> R"
  shows "(\<exists>s turnss. board_loop E lg ps fs R = Inr s
           \<and> length turnss = nat R
           \<and> (\<forall>turns \<in> set turnss. mset (map fst turns) = mset ps)
           \<and> global_history s = history_of_rounds fs [1..R] turnss
           \<and> transcript s = transcript_of_rounds fs [1..R] turnss
           \<and> priority_votes s = votes_of_turns E fs (last turnss))
       \<and> tally E fs reply v = first_match_vote E fs reply v
       \<and> ((\<exists>f \<in> set fs. mentions E f reply) \<longrightarrow> (\<exists>!k. tally E fs reply v k \<noteq> v k))"
proof -
  from board_loop_Inr [of E lg ps fs R] obtain s turnss where
    run: "board_loop E lg ps fs R = Inr s"
    and len: "length turnss = length [1..R]"
    and ms: "\<forall>turns \<in> set turnss. mset (map fst turns) = mset ps"
    and h: "global_history s = history_of_rounds fs [1..R] turnss"
    and t: "transcript s = transcript_of_rounds fs [1..R] turnss"
    and v: "priority_votes s =
         foldl (\<lambda>v (r, turns). if r = R then foldl (\<lambda>v (p, reply). tally E fs reply v) v turns else v)
           Map.empty (zip [1..R] turnss)"
    by blast
  from assms len have len': "length turnss = nat R" by simp
  have "priority_votes s = foldl (\<lambda>v (p, reply). tally E fs reply v) Map.empty (last turnss)"
    unfolding v using votes_last_round [OF assms len'] .
  then have "priority_votes s = votes_of_turns E fs (last turnss)"
    by (simp add: votes_of_turns_def tally_first_match)
  with run len' ms h t have
    "\<exists>s turnss. board_loop E lg ps fs R = Inr s
           \<and> length turnss = nat R
           \<and> (\<forall>turns \<in> set turnss. mset (map fst turns) = mset ps)
           \<and> global_history s = history_of_rounds fs [1..R] turnss
           \<and> transcript s = transcript_of_rounds fs [1..R] turnss
           \<and> priority_votes s = votes_of_turns E fs (last turnss)"
    by blast
  then show ?thesis
    using tally_first_match [of E fs reply v] first_match_vote_changes_one [of fs E reply v]
    by simp
qed

text \<open>The final tally of the two-round example: both replies of round 2 name both features.\<close>

lemma echo_votes:
  "map_sum fst (\<lambda>s. map (priority_votes s) [''Sleep timer'', ''Dark mode''])
     (board_loop echo_env [] [ann, bob] [sleep_timer, dark_mode] 2) = Inr [Some 2, None]"
  by code_simp

theorem votes_only_in_final_round_witness:
  "(1 :: int) \<le> 2
   \<and> (\<exists>s turnss. board_loop echo_env [] [ann, bob] [sleep_timer, dark_mode] 2 = Inr s
         \<and> length turnss = 2
         \<and> (\<forall>turns \<in> set turnss. mset (map fst turns) = mset [ann, bob])
         \<and> global_history s = history_of_rounds [sleep_timer, dark_mode] [1..2] turnss
         \<and> transcript s = transcript_of_rounds [sleep_timer, dark_mode] [1..2] turnss
         \<and> priority_votes s = votes_of_turns echo_env [sleep_timer, dark_mode] (last turnss))
   \<and> mentions echo_env sleep_timer ''I want Dark Mode and a sleep timer''
   \<and> mentions echo_env dark_mode ''I want Dark Mode and a sleep timer''
   \<and> (\<exists>!k. tally echo_env [sleep_timer, dark_mode] ''I want Dark Mode and a sleep timer''
              Map.empty k \<noteq> Map.empty k)
   \<and> tally echo_env [sleep_timer, dark_mode] ''I want Dark Mode and a sleep timer'' Map.empty
       = [''Sleep timer'' \<mapsto> 1]"
proof -
  have one: "(1 :: int) \<le> 2" by simp
  have m1: "mentions echo_env sleep_timer ''I want Dark Mode and a sleep timer''"
    by code_simp
  have m2: "mentions echo_env dark_mode ''I want Dark Mode and a sleep timer''"
    by code_simp
  have ex: "\<exists>f \<in> set [sleep_timer, dark_mode].
      mentions echo_env f ''I want Dark Mode and a sleep timer''"
    using m1 by simp
  have t: "tally echo_env [sleep_timer, dark_mode] ''I want Dark Mode and a sleep timer'' Map.empty
       = [''Sleep timer'' \<mapsto> 1]"
    using m1 by (simp add: votes_of_def sleep_timer_def)
  have n2: "nat 2 = 2" by simp
  from votes_only_in_final_round [OF one, of echo_env "[]" "[ann, bob]"
      "[sleep_timer, dark_mode]" "''I want Dark Mode and a sleep timer''" Map.empty]
    ex m1 m2 t one
  show ?thesis unfolding n2 by simp
qed

subsection \<open>The tally is not part of the result\<close>

lemma persona_turn_no_tally_rel:
  assumes "same_but_votes s t"
  shows "rel_sum (rel_prod (=) same_but_votes) same_but_votes
     (persona_turn E fs R r s p) (persona_turn_no_tally E fs r t p)"
  using assms
  by (auto simp: persona_turn_def persona_turn_no_tally_def same_but_votes_def Let_def
      split: option.splits prod.splits sum.splits)

lemma run_turns_no_tally_rel:
  assumes "same_but_votes s t"
  shows "rel_sum (rel_prod (=) same_but_votes) same_but_votes
     (run_turns E fs R r s ps) (run_turns_no_tally E fs r t ps)"
  using assms
proof (induction ps arbitrary: s t)
  case Nil
  then show ?case by simp
next
  case (Cons p ps)
  from persona_turn_no_tally_rel [OF Cons.prems, of E fs R r p] show ?case
    by (cases "persona_turn E fs R r s p"; cases "persona_turn_no_tally E fs r t p")
      (auto simp: Cons.IH)
qed

lemma run_round_no_tally_rel:
  assumes "same_but_votes s t"
  shows "rel_sum (rel_prod (=) same_but_votes) same_but_votes
     (run_round E ps fs R r s) (run_round_no_tally E ps fs r t)"
proof -
  from assms have "same_but_votes
     (s\<lparr>transcript := transcript s @ [facilitator_heading r, fac_input fs r],
        global_history := global_history s @ [HumanMessage (fac_input fs r)]\<rparr>)
     (t\<lparr>transcript := transcript t @ [facilitator_heading r, fac_input fs r],
        global_history := global_history t @ [HumanMessage (fac_input fs r)]\<rparr>)"
    by (simp add: same_but_votes_def)
  from run_turns_no_tally_rel [OF this] show ?thesis
    by (simp add: run_round_def run_round_no_tally_def Let_def)
qed

lemma run_rounds_no_tally_rel:
  assumes "same_but_votes s t"
  shows "rel_sum (rel_prod (=) same_but_votes) same_but_votes
     (run_rounds E ps fs R s rs) (run_rounds_no_tally E ps fs t rs)"
  using assms
proof (induction rs arbitrary: s t)
  case Nil
  then show ?case by simp
next
  case (Cons r rs)
  from run_round_no_tally_rel [OF Cons.prems, of E ps fs R r] show ?case
    by (cases "run_round E ps fs R r s"; cases "run_round_no_tally E ps fs r t")
      (auto simp: Cons.IH)
qed

text \<open>
  C9. \<open>simulate_board\<close> returns what the simulation without the tally returns: the same
  transcript and the same global history (or the same exception), and the same requests
  to the completion service. The tally is a local variable of the loop; the pair returned
  has no component for it.
\<close>

theorem tally_not_in_result:
  "simulate_board E lg ps fs R = simulate_board_no_tally E lg ps fs R"
proof (cases "ps = [] \<or> fs = []")
  case True
  then show ?thesis by (simp add: simulate_board_def simulate_board_no_tally_def)
next
  case False
  have "same_but_votes (init_board ps lg) (init_board ps lg)"
    by (simp add: same_but_votes_def)
  from run_rounds_no_tally_rel [OF this, of E ps fs R "[1..R]"] False show ?thesis
    by (cases "run_rounds E ps fs R (init_board ps lg) [1..R]";
        cases "run_rounds_no_tally E ps fs (init_board ps lg) [1..R]")
      (auto simp: simulate_board_def simulate_board_no_tally_def board_loop_def
        same_but_votes_def)
qed

subsection \<open>What a turn does to the chains\<close>

lemma persona_turn_chains:
  assumes "persona_turn E fs R r s p = Inr s'"
  shows "(\<forall>n. n \<noteq> name p \<longrightarrow> chains s' n = chains s n)
     \<and> (\<exists>c c'. chains s (name p) = Some c \<and> chains s' (name p) = Some c'
          \<and> (memory c' = memory c \<or> (\<exists>out. memory c' = memory c @ [(fac_input fs r, out)])))"
  using assms
  by (auto simp: persona_turn_def predict_def invoke_def Let_def
      split: option.splits prod.splits sum.splits if_splits)

text \<open>
  C1. The facilitator message is chosen by the round index alone: round 1 the welcome, round
  2 the risk and success-metric prompt, every later round the prioritisation prompt, whether
  or not it is the last. In a meeting of four rounds, round 3, which is not the final one,
  is asked to pick one feature, and in a meeting of two rounds the final round is asked for
  risks and success metrics and not to pick a feature.
\<close>

theorem facilitator_prompt_by_round_index:
  "map_sum id (\<lambda>(t, h). filter is_human h) (fst (simulate_board echo_env [] [ann] [sleep_timer] 4))
     = Inr [HumanMessage (fac_welcome [sleep_timer]), HumanMessage fac_deeper,
            HumanMessage fac_prioritise, HumanMessage fac_prioritise]
   \<and> map_sum id (\<lambda>(t, h). filter is_human h) (fst (simulate_board echo_env [] [ann] [sleep_timer] 2))
     = Inr [HumanMessage (fac_welcome [sleep_timer]), HumanMessage fac_deeper]
   \<and> fac_prioritise \<noteq> fac_deeper"
  by code_simp

text \<open>
  C4. Two personas with the same name. The dictionary of the chains has one entry for the
  name, the chain built for the second persona. In round 1 the first persona speaks first;
  its turn runs on that chain, and its reply is saved in the memory the second persona's
  turn then reads: the prompt of the second request contains the reply of the first turn,
  and at the end the one memory holds both replies. The background of the first persona
  is in no prompt at all.
\<close>

theorem shared_name_shares_memory:
  "name ann = name ann2 \<and> ann \<noteq> ann2
   \<and> shuffle (rng echo_env 1) [ann, ann2] = [ann, ann2]
   \<and> map_sum fst (\<lambda>s. (global_history s,
          map_option (\<lambda>c. (persona_background c, map snd (memory c))) (chains s ''Ann''),
          sublist ''AI: reply 0'' (llm_calls s ! 1),
          list_ex (sublist (background ann)) (llm_calls s)))
       (board_loop echo_env [] [ann, ann2] [sleep_timer] 1)
     = Inr ([HumanMessage (fac_welcome [sleep_timer]),
             AIMessage ''reply 0: dark mode, then Sleep Timer'',
             AIMessage ''reply 1: dark mode, then Sleep Timer''],
            Some (''Retired teacher'',
              [''reply 0: dark mode, then Sleep Timer '',
               ''reply 1: dark mode, then Sleep Timer '']),
            True, False)"
  by code_simp


section \<open>The claims on the meeting summary\<close>

lemma chars_nonempty: "[] \<notin> set (chars s)"
  by (induction s rule: chars.induct) auto

lemma concat_nonempty_Nil: "[] \<notin> set xs \<Longrightarrow> concat xs = [] \<longleftrightarrow> xs = []"
  by (cases xs) auto

lemma dropWhile_rev_Nil: "dropWhile P (rev xs) = [] \<longleftrightarrow> list_all P xs"
  by (simp add: dropWhile_eq_Nil_conv list_all_iff)

lemma strip_empty_iff: "strip t = [] \<longleftrightarrow> list_all isspace (chars t)"
proof -
  let ?d = "dropWhile isspace (chars t)"
  have sub: "set (rev (dropWhile isspace (rev ?d))) \<subseteq> set (chars t)"
    using set_dropWhileD [of _ isspace "rev ?d"] set_dropWhileD [of _ isspace "chars t"]
    by auto
  have "[] \<notin> set (rev (dropWhile isspace (rev ?d)))"
    using sub chars_nonempty [of t] by blast
  then have "strip t = [] \<longleftrightarrow> rev (dropWhile isspace (rev ?d)) = []"
    unfolding strip_def by (rule concat_nonempty_Nil)
  also have "\<dots> \<longleftrightarrow> list_all isspace ?d"
    using dropWhile_rev_Nil [of isspace ?d] by simp
  also have "\<dots> \<longleftrightarrow> ?d = []"
  proof
    assume all: "list_all isspace ?d"
    show "?d = []"
    proof (rule ccontr)
      assume ne: "?d \<noteq> []"
      then have "\<not> isspace (hd ?d)" by (rule hd_dropWhile)
      moreover from ne have "hd ?d \<in> set ?d" by simp
      ultimately show False using all by (auto simp: list_all_iff)
    qed
  next
    assume e: "?d = []"
    show "list_all isspace ?d" unfolding e by simp
  qed
  also have "\<dots> \<longleftrightarrow> list_all isspace (chars t)"
    by (simp add: dropWhile_eq_Nil_conv list_all_iff)
  finally show ?thesis .
qed

text \<open>
  C6, as amended. \<open>summarise_meeting\<close> applied to a transcript that is empty or consists of
  white space (every character of it is one that \<open>str.strip()\<close> removes, in ASCII or
  outside it) returns the fixed string \<open>Error: Transcript was empty.\<close> and leaves the log
  of the requests as it was: the completion service is not called. For every other
  transcript, when the completion call fails (its third attempt raises \<open>e\<close>), the exception
  is not propagated: the function returns the fixed prefix
  \<open>Error: Failed to generate meeting summary due to: \<close> followed by the text of \<open>e\<close>.
\<close>

theorem summarise_meeting_error_strings:
  "(list_all isspace (chars t) \<longrightarrow>
      summarise_meeting E lg t = (''Error: Transcript was empty.'', lg))
   \<and> (\<not> list_all isspace (chars t) \<and> fst (ask_llm E lg (summary_prompt t)) = Inl e \<longrightarrow>
      fst (summarise_meeting E lg t) = summary_failed @ str_exn E e)"
  by (auto simp: summarise_meeting_def strip_empty_iff split: prod.splits sum.splits)

text \<open>
  The transcript of the first half is a blank, a line feed, a no-break space (U+00A0) and
  an em space (U+2003).
\<close>

theorem summarise_meeting_error_strings_witness:
  "list_all isspace (chars ('' \<newline>'' @ [CHR 0xC2, CHR 0xA0, CHR 0xE2, CHR 0x80, CHR 0x83]))
   \<and> summarise_meeting timeout_env [''earlier request'']
         ('' \<newline>'' @ [CHR 0xC2, CHR 0xA0, CHR 0xE2, CHR 0x80, CHR 0x83])
       = (''Error: Transcript was empty.'', [''earlier request''])
   \<and> \<not> list_all isspace (chars ''x'')
   \<and> fst (ask_llm timeout_env [] (summary_prompt ''x'')) = Inl (ServiceError ''timeout'')
   \<and> fst (summarise_meeting timeout_env [] ''x'')
       = ''Error: Failed to generate meeting summary due to: timeout''"
proof -
  have a: "list_all isspace
             (chars ('' \<newline>'' @ [CHR 0xC2, CHR 0xA0, CHR 0xE2, CHR 0x80, CHR 0x83]))"
    by code_simp
  have b: "\<not> list_all isspace (chars ''x'')" by code_simp
  have c: "fst (ask_llm timeout_env [] (summary_prompt ''x'')) = Inl (ServiceError ''timeout'')"
    by code_simp
  have d: "summary_failed @ str_exn timeout_env (ServiceError ''timeout'')
      = ''Error: Failed to generate meeting summary due to: timeout''"
    by code_simp
  from summarise_meeting_error_strings
         [of "'' \<newline>'' @ [CHR 0xC2, CHR 0xA0, CHR 0xE2, CHR 0x80, CHR 0x83]" timeout_env
             "[''earlier request'']"]
    summarise_meeting_error_strings [of "''x''" timeout_env "[]" "ServiceError ''timeout''"]
    a b c d
  show ?thesis by simp
qed

text \<open>
  C6 as stated says the failure is converted to a fixed error string. The string depends
  on the exception: for one transcript, a service that fails with \<open>timeout\<close> and one that
  fails with \<open>quota\<close> give two different results.
\<close>

theorem summarise_meeting_error_not_fixed:
  "fst (summarise_meeting timeout_env [] ''x'')
     = ''Error: Failed to generate meeting summary due to: timeout''
   \<and> fst (summarise_meeting quota_env [] ''x'')
     = ''Error: Failed to generate meeting summary due to: quota''
   \<and> fst (summarise_meeting timeout_env [] ''x'') \<noteq> fst (summarise_meeting quota_env [] ''x'')"
  by code_simp

section \<open>The claims on persona generation\<close>

text \<open>
  C10. For every clusters mapping and every requested count \<open>\<le> 0\<close>, \<open>generate_personas\<close>
  returns the empty list, and the log of the requests is the one it was called with: the
  completion service is not called.
\<close>

theorem generate_personas_nonpositive_count:
  assumes "count' \<le> 0"
  shows "generate_personas E lg clusters count' = (Inr [], lg)"
  using assms by (simp add: generate_personas_def)

theorem generate_personas_nonpositive_count_witness:
  "(0 :: int) \<le> 0 \<and> (- 2 :: int) \<le> 0
   \<and> generate_personas echo_env [''earlier request''] [(''0'', good_cluster)] 0
       = (Inr [], [''earlier request''])
   \<and> generate_personas echo_env [] [(''0'', bad_average_cluster)] (- 2) = (Inr [], [])"
  using generate_personas_nonpositive_count [of 0 echo_env "[''earlier request'']"
      "[(''0'', good_cluster)]"]
    generate_personas_nonpositive_count [of "- 2" echo_env "[]" "[(''0'', bad_average_cluster)]"]
  by simp

lemma validate_item_missing_key:
  "\<not> list_all (has_key d) required_keys \<Longrightarrow> validate_item E (PDict d) = Inr None"
  by (simp add: validate_item_def)

lemma validate_items_drop:
  assumes "\<not> list_all (has_key d) required_keys"
  shows "validate_items E (xs @ PDict d # ys) = validate_items E (xs @ ys)"
proof (induction xs)
  case Nil
  from assms show ?case by (simp add: validate_item_missing_key)
next
  case (Cons x xs)
  then show ?case by (auto split: sum.splits option.splits)
qed

lemma slice_to_length: "0 \<le> n \<Longrightarrow> int (length (slice_to n xs)) \<le> n"
  by (simp add: slice_to_def)

lemma personas_of_response_length:
  assumes "0 \<le> count'"
  shows "int (length (personas_of_response E count' raw)) \<le> count'"
  using assms slice_to_length [OF assms]
  by (auto simp: personas_of_response_def Let_def split: sum.splits)

lemma generate_personas_result:
  assumes "fst (generate_personas E lg clusters count') = Inr ps"
  shows "ps = [] \<or> (0 < count' \<and> (\<exists>raw. ps = personas_of_response E count' raw))"
proof (cases "clusters = [] \<or> count' \<le> 0")
  case True
  with assms show ?thesis by (auto simp: generate_personas_def split: if_splits)
next
  case False
  let ?n = "min count' (int (length clusters))"
  from False have n: "(\<not> ?n < count' \<and> ?n = 0) = False" by auto
  show ?thesis
  proof (cases "persona_details E (slice_to ?n clusters)")
    case (Inl e)
    with assms False show ?thesis by (simp add: generate_personas_def Let_def n)
  next
    case (Inr details)
    show ?thesis
    proof (cases "details = []")
      case True
      with assms False Inr show ?thesis by (simp add: generate_personas_def Let_def n)
    next
      case ne: False
      obtain res lg' where a:
        "ask_llm E lg (persona_prompt count' (join (backslash @ ''n'') details)) = (res, lg')"
        by (cases "ask_llm E lg (persona_prompt count' (join (backslash @ ''n'') details))") auto
      with assms False Inr ne show ?thesis
        by (cases res) (auto simp: generate_personas_def Let_def n)
    qed
  qed
qed

text \<open>
  C8. An element of the parsed array that is a dictionary without one of the six required
  keys is dropped on its own: the validation loop gives, for the array with the element,
  what it gives for the array without it, whatever stands before and after. And the list
  \<open>generate_personas\<close> returns is never longer than the requested count (it is empty when
  the count is not positive).
\<close>

theorem persona_validation:
  "(\<not> list_all (has_key d) required_keys \<longrightarrow>
      validate_items E (xs @ PDict d # ys) = validate_items E (xs @ ys))
   \<and> (fst (generate_personas E lg clusters count') = Inr ps \<longrightarrow>
      int (length ps) \<le> max 0 count')"
proof -
  have "int (length ps) \<le> max 0 count'" if "fst (generate_personas E lg clusters count') = Inr ps"
    using generate_personas_result [OF that] personas_of_response_length [of count' E]
    by auto
  then show ?thesis using validate_items_drop [of d E xs ys] by blast
qed

theorem persona_validation_witness:
  "\<not> list_all (has_key no_quote_fields) required_keys
   \<and> validate_items json_env
         ([persona_item ''Cy'' ''Positive''] @ PDict no_quote_fields
            # [persona_item ''Eve'' ''neutral'', persona_item ''Flo'' ''NEGATIVE''])
       = validate_items json_env
         ([persona_item ''Cy'' ''Positive'']
            @ [persona_item ''Eve'' ''neutral'', persona_item ''Flo'' ''NEGATIVE''])
   \<and> fst (generate_personas json_env [] [(''0'', good_cluster)] 2)
       = Inr (map (\<lambda>n. \<lparr>name = n, background = ''b'', quote = ''q'',
                sentiment = (if n = ''Cy'' then ''positive'' else ''neutral''),
                pain_points = [''p''], inspired_by_cluster_id = Some ''3''\<rparr>) [''Cy'', ''Eve''])
   \<and> int (length [''Cy'', ''Eve'']) \<le> max 0 2"
proof -
  have a: "\<not> list_all (has_key no_quote_fields) required_keys" by code_simp
  have b: "fst (generate_personas json_env [] [(''0'', good_cluster)] 2)
       = Inr (map (\<lambda>n. \<lparr>name = n, background = ''b'', quote = ''q'',
                sentiment = (if n = ''Cy'' then ''positive'' else ''neutral''),
                pain_points = [''p''], inspired_by_cluster_id = Some ''3''\<rparr>) [''Cy'', ''Eve''])"
    by code_simp
  from persona_validation [of no_quote_fields json_env "[persona_item ''Cy'' ''Positive'']"
      "[persona_item ''Eve'' ''neutral'', persona_item ''Flo'' ''NEGATIVE'']" "[]"
      "[(''0'', good_cluster)]" 2, unfolded b] a b
  show ?thesis by simp
qed


section \<open>The claim on the pipeline\<close>





















end
